theory Spec2Isabelle
  imports Complex_Main "HOL-Library.AList"
begin

section \<open>Data model (types.ts)\<close>

text \<open>
  The TypeScript \<^verbatim>\<open>number\<close> values that the coefficient engine handles are dyadic
  rationals with small exponents (table constants such as 0.5 or 0.0078125, powers of
  0.5 and short sums of them); they are modelled as exact rationals. String-valued
  enumerations become datatypes, interfaces become records. A record field whose name
  would clash with a function of the program or with a field of another record carries
  a short prefix. Optional fields (\<^verbatim>\<open>motherId?\<close>) are options; the layout fields
  \<^verbatim>\<open>x\<close>, \<^verbatim>\<open>y\<close> and the unused \<^verbatim>\<open>inbreedingCoefficient\<close> of a person are left out.
\<close>

datatype Sex = M | F

datatype RelationshipType =
    Siblings
  | HalfSiblings
  | FirstCousins
  | SecondCousins
  | ThirdCousins
  | DoubleFirstCousins
  | FirstCousinsOnceRemoved
  | Avuncular
  | GrandparentGrandchild
  | GreatGrandparent
  | ParentChild

record Person =
  person_id :: string
  label :: string
  sex :: Sex
  generation :: int
  motherId :: "string option"
  fatherId :: "string option"

record ParentChildEdge =
  parentId :: string
  childId :: string

record ConsanguinityLink =
  link_person1Id :: string
  link_person2Id :: string
  link_relationship :: RelationshipType

text \<open>
  A JavaScript \<^verbatim>\<open>Map\<close> keeps its keys in insertion order; \<^verbatim>\<open>set\<close> on a present key
  replaces the value where it stands and on a new key appends. That is an association
  list with \<^const>\<open>map_of\<close> for \<^verbatim>\<open>get\<close> and \<^const>\<open>AList.update\<close> for \<^verbatim>\<open>set\<close>.
\<close>

type_synonym ('k, 'v) js_map = "('k \<times> 'v) list"

definition map_has :: "('k, 'v) js_map \<Rightarrow> 'k \<Rightarrow> bool" where
  "map_has m k = (case map_of m k of None \<Rightarrow> False | Some v \<Rightarrow> True)"

definition map_set :: "('k, 'v) js_map \<Rightarrow> 'k \<Rightarrow> 'v \<Rightarrow> ('k, 'v) js_map" where
  "map_set m k v = AList.update k v m"

record FamilyGraph =
  graph_persons :: "(string, Person) js_map"
  graph_edges :: "ParentChildEdge list"
  consanguinityLinks :: "ConsanguinityLink list"

record AncestorPath =
  personIds :: "string list"
  commonAncestorId :: string
  steps :: nat

record ProbabilityResult =
  pr_coefficientOfRelationship :: rat
  pr_geneOverlapProbability :: rat
  pr_inbreedingCoefficient :: rat
  pr_xLinkedCoefficient :: "rat option"
  pr_yLinkedCoefficient :: "rat option"
  baselineR :: rat
  deltaFromBaseline :: rat

datatype Generation = Parents | Grandparents | GreatGrandparents

record ConsanguinityFactor =
  factor_generation :: Generation
  factor_relationship :: RelationshipType

text \<open>
  Truthiness, as \<^verbatim>\<open>||\<close>, \<^verbatim>\<open>&&\<close> and \<^verbatim>\<open>filter(Boolean)\<close> use it: a number is falsy
  when it is 0, a string when it is empty, \<^verbatim>\<open>undefined\<close> always.
\<close>

definition num_or :: "rat option \<Rightarrow> rat \<Rightarrow> rat" where
  "num_or a d = (case a of None \<Rightarrow> d | Some v \<Rightarrow> if v = 0 then d else v)"

definition truthy_str :: "string option \<Rightarrow> bool" where
  "truthy_str a = (case a of None \<Rightarrow> False | Some s \<Rightarrow> s \<noteq> [])"

text \<open>\<^verbatim>\<open>Math.pow(b, e)\<close> for a non-zero base and an integer exponent.\<close>

definition Math_pow :: "rat \<Rightarrow> int \<Rightarrow> rat" where
  "Math_pow b e = (if 0 \<le> e then b ^ nat e else 1 / b ^ nat (- e))"

text \<open>
  A \<^verbatim>\<open>for (const x of xs)\<close> loop whose body may not return: the state is threaded
  through the elements in order, and the loop does not return as soon as one body does not.
\<close>

primrec for_each :: "'a list \<Rightarrow> ('a \<Rightarrow> 's \<Rightarrow> 's option) \<Rightarrow> 's \<Rightarrow> 's option" where
  "for_each [] body s = Some s"
| "for_each (x # xs) body s =
     (case body x s of None \<Rightarrow> None | Some s' \<Rightarrow> for_each xs body s')"

section \<open>Coefficient engine (lib/genetics.ts)\<close>

fun BASE_COEFFICIENTS :: "RelationshipType \<Rightarrow> rat" where
  "BASE_COEFFICIENTS ParentChild = 1/2"
| "BASE_COEFFICIENTS Siblings = 1/2"
| "BASE_COEFFICIENTS HalfSiblings = 1/4"
| "BASE_COEFFICIENTS GrandparentGrandchild = 1/4"
| "BASE_COEFFICIENTS Avuncular = 1/4"
| "BASE_COEFFICIENTS FirstCousins = 1/8"
| "BASE_COEFFICIENTS DoubleFirstCousins = 1/4"
| "BASE_COEFFICIENTS FirstCousinsOnceRemoved = 1/16"
| "BASE_COEFFICIENTS GreatGrandparent = 1/8"
| "BASE_COEFFICIENTS SecondCousins = 1/32"
| "BASE_COEFFICIENTS ThirdCousins = 1/128"

definition coefficientOfRelationship ::
    "AncestorPath list \<Rightarrow> (string, rat) js_map \<Rightarrow> rat" where
  "coefficientOfRelationship paths ancestorInbreeding =
     foldl (\<lambda>r path.
        let F_A = num_or (map_of ancestorInbreeding (commonAncestorId path)) 0;
            contribution = Math_pow (1/2) (int (steps path)) * (1 + F_A)
        in r + contribution) 0 paths"

definition inbreedingCoefficient ::
    "AncestorPath list \<Rightarrow> (string, rat) js_map \<Rightarrow> rat" where
  "inbreedingCoefficient paths ancestorInbreeding =
     foldl (\<lambda>r path.
        let F_A = num_or (map_of ancestorInbreeding (commonAncestorId path)) 0;
            contribution = Math_pow (1/2) (int (steps path) + 1) * (1 + F_A)
        in r + contribution) 0 paths"

definition geneOverlapProbability :: "rat \<Rightarrow> rat" where
  "geneOverlapProbability r = r"

text \<open>
  The X-linked table is keyed by the relationship and by the string
  \<^verbatim>\<open>sex1-sex2\<close>; every relationship has all four keys, so the \<^verbatim>\<open>?? null\<close> default
  is never taken for a well-typed call.
\<close>

fun xLinkedTable :: "RelationshipType \<Rightarrow> Sex \<Rightarrow> Sex \<Rightarrow> rat option" where
  "xLinkedTable ParentChild M M = Some 0"
| "xLinkedTable ParentChild M F = Some 1"
| "xLinkedTable ParentChild F M = Some (1/2)"
| "xLinkedTable ParentChild F F = Some (1/2)"
| "xLinkedTable Siblings s1 s2 = Some (1/2)"
| "xLinkedTable HalfSiblings s1 s2 = Some (1/2)"
| "xLinkedTable GrandparentGrandchild M s2 = Some 0"
| "xLinkedTable GrandparentGrandchild F s2 = Some (1/4)"
| "xLinkedTable Avuncular s1 s2 = Some (1/4)"
| "xLinkedTable FirstCousins s1 s2 = Some (1/8)"
| "xLinkedTable DoubleFirstCousins s1 s2 = Some (1/4)"
| "xLinkedTable FirstCousinsOnceRemoved s1 s2 = Some (1/16)"
| "xLinkedTable GreatGrandparent M s2 = Some 0"
| "xLinkedTable GreatGrandparent F s2 = Some (1/8)"
| "xLinkedTable SecondCousins s1 s2 = Some (1/32)"
| "xLinkedTable ThirdCousins s1 s2 = Some (1/128)"

definition xLinkedCoefficient :: "Person \<Rightarrow> Person \<Rightarrow> RelationshipType \<Rightarrow> rat option" where
  "xLinkedCoefficient person1 person2 relationship =
     (let sex1 = sex person1; sex2 = sex person2
      in xLinkedTable relationship sex1 sex2)"

definition patrilinealRelationships :: "RelationshipType list" where
  "patrilinealRelationships =
     [ParentChild, Siblings, GrandparentGrandchild, Avuncular, FirstCousins]"

fun yLinkedCoefficient :: "Person \<Rightarrow> Person \<Rightarrow> RelationshipType \<Rightarrow> rat option" where
  "yLinkedCoefficient person1 person2 relationship =
     (if sex person1 \<noteq> M \<or> sex person2 \<noteq> M then Some 0
      else if List.member patrilinealRelationships relationship then Some 1
      else if relationship = HalfSiblings then Some 0
      else Some 0)"

text \<open>
  The last parameter of \<^verbatim>\<open>calculateProbabilities\<close> defaults to 0 in the source; the
  model takes it explicitly.
\<close>

definition calculateProbabilities ::
    "Person \<Rightarrow> Person \<Rightarrow> RelationshipType \<Rightarrow> rat \<Rightarrow> ProbabilityResult" where
  "calculateProbabilities person1 person2 relationship consanguinityFactor =
     (let baseR = BASE_COEFFICIENTS relationship;
          adjustedR = baseR * (1 + consanguinityFactor);
          F_offspring = adjustedR / 2;
          xLinked = xLinkedCoefficient person1 person2 relationship;
          yLinked = yLinkedCoefficient person1 person2 relationship
      in \<lparr> pr_coefficientOfRelationship = adjustedR,
           pr_geneOverlapProbability = geneOverlapProbability adjustedR,
           pr_inbreedingCoefficient = F_offspring,
           pr_xLinkedCoefficient = xLinked,
           pr_yLinkedCoefficient = yLinked,
           baselineR = baseR,
           deltaFromBaseline = adjustedR - baseR \<rparr>)"

definition getConsanguinityFactor :: "RelationshipType option \<Rightarrow> rat" where
  "getConsanguinityFactor parentRelationship =
     (case parentRelationship of
        None \<Rightarrow> 0
      | Some rel \<Rightarrow>
          (let parentR = num_or (Some (BASE_COEFFICIENTS rel)) 0
           in parentR / 2))"

fun GENERATION_MULTIPLIERS :: "Generation \<Rightarrow> rat" where
  "GENERATION_MULTIPLIERS Parents = 1"
| "GENERATION_MULTIPLIERS Grandparents = 1/2"
| "GENERATION_MULTIPLIERS GreatGrandparents = 1/4"

definition getCompoundConsanguinityFactor :: "ConsanguinityFactor list \<Rightarrow> rat" where
  "getCompoundConsanguinityFactor factors =
     foldl (\<lambda>totalFactor factor.
        let baseF = getConsanguinityFactor (Some (factor_relationship factor));
            multiplier = num_or (Some (GENERATION_MULTIPLIERS (factor_generation factor))) 1
        in totalFactor + baseF * multiplier) 0 factors"

text \<open>
  \<^verbatim>\<open>getAllAncestors\<close> recurses through the parents with one visited set shared by
  the whole traversal (the default argument creates it once, at the outermost call). The
  model threads the set through the calls and returns it with the result. The recursion
  depth is bounded by a fuel argument; \<^verbatim>\<open>findAncestorPaths\<close> supplies one more than
  the number of persons, which is shown below always to be enough.
\<close>

definition parentIds :: "Person \<Rightarrow> string list" where
  "parentIds person =
     List.map_filter (\<lambda>p. if truthy_str p then p else None) [motherId person, fatherId person]"

primrec getAllAncestors ::
    "nat \<Rightarrow> string \<Rightarrow> FamilyGraph \<Rightarrow> string set
      \<Rightarrow> ((string, string list) js_map \<times> string set) option" where
  "getAllAncestors 0 personId graph visited = None"
| "getAllAncestors (Suc fuel) personId graph visited =
     (if personId \<in> visited then Some ([], visited)
      else
        (case map_of (graph_persons graph) personId of
           None \<Rightarrow> Some ([], insert personId visited)
         | Some person \<Rightarrow>
             for_each (parentIds person)
               (\<lambda>parentId (ancestors, vis).
                  case getAllAncestors fuel parentId graph vis of
                    None \<Rightarrow> None
                  | Some (grandAncestors, vis') \<Rightarrow>
                      Some (fold (\<lambda>(grandId, path) acc. map_set acc grandId (personId # path))
                              grandAncestors (map_set ancestors parentId [personId]),
                            vis'))
               ([], insert personId visited)))"

definition findAncestorPaths ::
    "string \<Rightarrow> string \<Rightarrow> FamilyGraph \<Rightarrow> AncestorPath list option" where
  "findAncestorPaths person1Id person2Id graph =
     (case getAllAncestors (Suc (length (graph_persons graph))) person1Id graph {} of
        None \<Rightarrow> None
      | Some (ancestors1, visited1) \<Rightarrow>
     (case getAllAncestors (Suc (length (graph_persons graph))) person2Id graph {} of
        None \<Rightarrow> None
      | Some (ancestors2, visited2) \<Rightarrow>
          Some (fold (\<lambda>(ancestorId, path1) paths.
                  case map_of ancestors2 ancestorId of
                    None \<Rightarrow> paths
                  | Some path2 \<Rightarrow>
                      paths @ [\<lparr> personIds = path1 @ [ancestorId] @ rev path2,
                                 commonAncestorId = ancestorId,
                                 steps = length path1 + length path2 \<rparr>])
                ancestors1 [])))"

section \<open>Static templates (lib/pedigree-templates.ts)\<close>

definition createPerson ::
    "string \<Rightarrow> string \<Rightarrow> Sex \<Rightarrow> int \<Rightarrow> string option \<Rightarrow> string option \<Rightarrow> Person" where
  "createPerson i l s g mother father =
     \<lparr> person_id = i, label = l, sex = s, generation = g,
       motherId = mother, fatherId = father \<rparr>"

text \<open>The persons of a template, inserted in the order of the \<^verbatim>\<open>persons.set\<close> calls.\<close>

definition set_persons :: "Person list \<Rightarrow> (string, Person) js_map" where
  "set_persons ps = foldl (\<lambda>m p. map_set m (person_id p) p) [] ps"

definition mk_edge :: "string \<Rightarrow> string \<Rightarrow> ParentChildEdge" where
  "mk_edge p c = \<lparr> parentId = p, childId = c \<rparr>"

definition createSiblingPedigree :: FamilyGraph where
  "createSiblingPedigree =
     \<lparr> graph_persons = set_persons
         [createPerson ''gf1'' ''Grandfather 1'' M 0 None None,
          createPerson ''gm1'' ''Grandmother 1'' F 0 None None,
          createPerson ''gf2'' ''Grandfather 2'' M 0 None None,
          createPerson ''gm2'' ''Grandmother 2'' F 0 None None,
          createPerson ''father'' ''Father'' M 1 (Some ''gm1'') (Some ''gf1''),
          createPerson ''mother'' ''Mother'' F 1 (Some ''gm2'') (Some ''gf2''),
          createPerson ''child1'' ''Sibling A'' M 2 (Some ''mother'') (Some ''father''),
          createPerson ''child2'' ''Sibling B'' F 2 (Some ''mother'') (Some ''father'')],
       graph_edges =
         [mk_edge ''gf1'' ''father'', mk_edge ''gm1'' ''father'',
          mk_edge ''gf2'' ''mother'', mk_edge ''gm2'' ''mother'',
          mk_edge ''father'' ''child1'', mk_edge ''mother'' ''child1'',
          mk_edge ''father'' ''child2'', mk_edge ''mother'' ''child2''],
       consanguinityLinks = [] \<rparr>"

definition createCousinsPedigree :: FamilyGraph where
  "createCousinsPedigree =
     \<lparr> graph_persons = set_persons
         [createPerson ''gf'' ''Grandfather'' M 0 None None,
          createPerson ''gm'' ''Grandmother'' F 0 None None,
          createPerson ''parent1'' ''Parent 1'' M 1 (Some ''gm'') (Some ''gf''),
          createPerson ''parent2'' ''Parent 2'' M 1 (Some ''gm'') (Some ''gf''),
          createPerson ''spouse1'' ''Spouse 1'' F 1 None None,
          createPerson ''spouse2'' ''Spouse 2'' F 1 None None,
          createPerson ''cousin1'' ''Cousin A'' M 2 (Some ''spouse1'') (Some ''parent1''),
          createPerson ''cousin2'' ''Cousin B'' F 2 (Some ''spouse2'') (Some ''parent2'')],
       graph_edges =
         [mk_edge ''gf'' ''parent1'', mk_edge ''gm'' ''parent1'',
          mk_edge ''gf'' ''parent2'', mk_edge ''gm'' ''parent2'',
          mk_edge ''parent1'' ''cousin1'', mk_edge ''spouse1'' ''cousin1'',
          mk_edge ''parent2'' ''cousin2'', mk_edge ''spouse2'' ''cousin2''],
       consanguinityLinks = [] \<rparr>"

fun getPedigreeForRelationship :: "RelationshipType \<Rightarrow> FamilyGraph" where
  "getPedigreeForRelationship Siblings = createSiblingPedigree"
| "getPedigreeForRelationship HalfSiblings = createSiblingPedigree"
| "getPedigreeForRelationship FirstCousins = createCousinsPedigree"
| "getPedigreeForRelationship DoubleFirstCousins = createCousinsPedigree"
| "getPedigreeForRelationship SecondCousins = createCousinsPedigree"
| "getPedigreeForRelationship ThirdCousins = createCousinsPedigree"
| "getPedigreeForRelationship FirstCousinsOnceRemoved = createCousinsPedigree"
| "getPedigreeForRelationship relationship = createSiblingPedigree"

fun getSelectedPairIds :: "RelationshipType \<Rightarrow> string \<times> string" where
  "getSelectedPairIds Siblings = (''child1'', ''child2'')"
| "getSelectedPairIds HalfSiblings = (''child1'', ''child2'')"
| "getSelectedPairIds FirstCousins = (''cousin1'', ''cousin2'')"
| "getSelectedPairIds DoubleFirstCousins = (''cousin1'', ''cousin2'')"
| "getSelectedPairIds SecondCousins = (''cousin1'', ''cousin2'')"
| "getSelectedPairIds ThirdCousins = (''cousin1'', ''cousin2'')"
| "getSelectedPairIds FirstCousinsOnceRemoved = (''cousin1'', ''cousin2'')"
| "getSelectedPairIds relationship = (''child1'', ''child2'')"

section \<open>Dynamic pedigree (lib/dynamic-pedigree.ts)\<close>

datatype NodeRelationshipType =
    NR_siblings
  | NR_half_siblings
  | NR_spouse
  | NR_first_cousins
  | NR_second_cousins
  | NR_unrelated

record NodeRelationship =
  person1Id :: string
  person2Id :: string
  rel_type :: NodeRelationshipType

record DynamicPedigree =
  persons :: "(string, Person) js_map"
  edges :: "ParentChildEdge list"
  definedRelationships :: "NodeRelationship list"
  targetPair :: "string \<times> string"
  merges :: "(string, string) js_map"

text \<open>
  \<^verbatim>\<open>addPerson\<close> stores a person without parent references; \<^verbatim>\<open>addEdge\<close> appends
  to the edge array (\<^const>\<open>mk_edge\<close>). The two accumulators are independent, so each
  template is given by its persons and its edges, both in call order.
\<close>

definition addPerson :: "string \<Rightarrow> string \<Rightarrow> Sex \<Rightarrow> int \<Rightarrow> Person" where
  "addPerson i l s g =
     \<lparr> person_id = i, label = l, sex = s, generation = g,
       motherId = None, fatherId = None \<rparr>"

definition siblings_template :: "Sex \<Rightarrow> Sex \<Rightarrow> Person list \<times> ParentChildEdge list" where
  "siblings_template person1Sex person2Sex =
     ([addPerson ''p1'' ''Sibling A'' person1Sex 2,
       addPerson ''p2'' ''Sibling B'' person2Sex 2,
       addPerson ''father'' ''Father'' M 1,
       addPerson ''mother'' ''Mother'' F 1,
       addPerson ''gf1'' ''Grandfather 1'' M 0,
       addPerson ''gm1'' ''Grandmother 1'' F 0,
       addPerson ''gf2'' ''Grandfather 2'' M 0,
       addPerson ''gm2'' ''Grandmother 2'' F 0],
      [mk_edge ''father'' ''p1'', mk_edge ''mother'' ''p1'',
       mk_edge ''father'' ''p2'', mk_edge ''mother'' ''p2'',
       mk_edge ''gf1'' ''father'', mk_edge ''gm1'' ''father'',
       mk_edge ''gf2'' ''mother'', mk_edge ''gm2'' ''mother''])"

definition first_cousins_template :: "Sex \<Rightarrow> Sex \<Rightarrow> Person list \<times> ParentChildEdge list" where
  "first_cousins_template person1Sex person2Sex =
     ([addPerson ''p1'' ''Cousin A'' person1Sex 2,
       addPerson ''p2'' ''Cousin B'' person2Sex 2,
       addPerson ''father1'' ''Parent A1'' M 1,
       addPerson ''mother1'' ''Parent A2'' F 1,
       addPerson ''father2'' ''Parent B1'' M 1,
       addPerson ''mother2'' ''Parent B2'' F 1,
       addPerson ''gf-shared'' ''Shared Grandfather'' M 0,
       addPerson ''gm-shared'' ''Shared Grandmother'' F 0,
       addPerson ''gf-a'' ''Grandfather A'' M 0,
       addPerson ''gm-a'' ''Grandmother A'' F 0,
       addPerson ''gf-b'' ''Grandfather B'' M 0,
       addPerson ''gm-b'' ''Grandmother B'' F 0],
      [mk_edge ''father1'' ''p1'', mk_edge ''mother1'' ''p1'',
       mk_edge ''father2'' ''p2'', mk_edge ''mother2'' ''p2'',
       mk_edge ''gf-shared'' ''father1'', mk_edge ''gm-shared'' ''father1'',
       mk_edge ''gf-shared'' ''father2'', mk_edge ''gm-shared'' ''father2'',
       mk_edge ''gf-a'' ''mother1'', mk_edge ''gm-a'' ''mother1'',
       mk_edge ''gf-b'' ''mother2'', mk_edge ''gm-b'' ''mother2''])"

definition double_first_cousins_template ::
    "Sex \<Rightarrow> Sex \<Rightarrow> Person list \<times> ParentChildEdge list" where
  "double_first_cousins_template person1Sex person2Sex =
     ([addPerson ''p1'' ''Cousin A'' person1Sex 2,
       addPerson ''p2'' ''Cousin B'' person2Sex 2,
       addPerson ''father1'' ''Father A'' M 1,
       addPerson ''mother1'' ''Mother A'' F 1,
       addPerson ''father2'' ''Father B'' M 1,
       addPerson ''mother2'' ''Mother B'' F 1,
       addPerson ''gf1'' ''Grandfather 1'' M 0,
       addPerson ''gm1'' ''Grandmother 1'' F 0,
       addPerson ''gf2'' ''Grandfather 2'' M 0,
       addPerson ''gm2'' ''Grandmother 2'' F 0],
      [mk_edge ''father1'' ''p1'', mk_edge ''mother1'' ''p1'',
       mk_edge ''father2'' ''p2'', mk_edge ''mother2'' ''p2'',
       mk_edge ''gf1'' ''father1'', mk_edge ''gm1'' ''father1'',
       mk_edge ''gf1'' ''father2'', mk_edge ''gm1'' ''father2'',
       mk_edge ''gf2'' ''mother1'', mk_edge ''gm2'' ''mother1'',
       mk_edge ''gf2'' ''mother2'', mk_edge ''gm2'' ''mother2''])"

definition avuncular_template :: "Sex \<Rightarrow> Sex \<Rightarrow> Person list \<times> ParentChildEdge list" where
  "avuncular_template person1Sex person2Sex =
     ([addPerson ''p1'' ''Uncle/Aunt'' person1Sex 1,
       addPerson ''p2'' ''Nephew/Niece'' person2Sex 2,
       addPerson ''sibling'' ''Parent'' (if person1Sex = M then F else M) 1,
       addPerson ''spouse'' ''Spouse'' (if person1Sex = M then F else M) 1,
       addPerson ''gf'' ''Grandfather'' M 0,
       addPerson ''gm'' ''Grandmother'' F 0,
       addPerson ''gf-spouse'' ''Grandfather (in-law)'' M 0,
       addPerson ''gm-spouse'' ''Grandmother (in-law)'' F 0],
      [mk_edge ''sibling'' ''p2'', mk_edge ''spouse'' ''p2'',
       mk_edge ''gf'' ''p1'', mk_edge ''gm'' ''p1'',
       mk_edge ''gf'' ''sibling'', mk_edge ''gm'' ''sibling'',
       mk_edge ''gf-spouse'' ''spouse'', mk_edge ''gm-spouse'' ''spouse''])"

definition second_cousins_template :: "Sex \<Rightarrow> Sex \<Rightarrow> Person list \<times> ParentChildEdge list" where
  "second_cousins_template person1Sex person2Sex =
     ([addPerson ''p1'' ''Cousin A'' person1Sex 3,
       addPerson ''p2'' ''Cousin B'' person2Sex 3,
       addPerson ''parent1'' ''Parent A'' M 2,
       addPerson ''parent2'' ''Parent B'' M 2,
       addPerson ''gp1'' ''Grandparent A'' M 1,
       addPerson ''gp2'' ''Grandparent B'' M 1,
       addPerson ''ggp-shared'' ''Shared Great-GP'' M 0],
      [mk_edge ''parent1'' ''p1'', mk_edge ''parent2'' ''p2'',
       mk_edge ''gp1'' ''parent1'', mk_edge ''gp2'' ''parent2'',
       mk_edge ''ggp-shared'' ''gp1'', mk_edge ''ggp-shared'' ''gp2''])"

definition default_template :: "Sex \<Rightarrow> Sex \<Rightarrow> Person list \<times> ParentChildEdge list" where
  "default_template person1Sex person2Sex =
     ([addPerson ''p1'' ''Person A'' person1Sex 2,
       addPerson ''p2'' ''Person B'' person2Sex 2,
       addPerson ''father'' ''Father'' M 1,
       addPerson ''mother'' ''Mother'' F 1],
      [mk_edge ''father'' ''p1'', mk_edge ''mother'' ''p1'',
       mk_edge ''father'' ''p2'', mk_edge ''mother'' ''p2''])"

fun template_for :: "RelationshipType \<Rightarrow> Sex \<Rightarrow> Sex \<Rightarrow> Person list \<times> ParentChildEdge list" where
  "template_for Siblings s1 s2 = siblings_template s1 s2"
| "template_for HalfSiblings s1 s2 = siblings_template s1 s2"
| "template_for FirstCousins s1 s2 = first_cousins_template s1 s2"
| "template_for DoubleFirstCousins s1 s2 = double_first_cousins_template s1 s2"
| "template_for Avuncular s1 s2 = avuncular_template s1 s2"
| "template_for SecondCousins s1 s2 = second_cousins_template s1 s2"
| "template_for baseRelationship s1 s2 = default_template s1 s2"

text \<open>
  \<^verbatim>\<open>generateBasePedigree\<close>: the two sexes default to M and F in the source and are
  explicit here; the target pair is always \<^verbatim>\<open>['p1', 'p2']\<close>.
\<close>

definition generateBasePedigree :: "RelationshipType \<Rightarrow> Sex \<Rightarrow> Sex \<Rightarrow> DynamicPedigree" where
  "generateBasePedigree baseRelationship person1Sex person2Sex =
     (case template_for baseRelationship person1Sex person2Sex of
        (ps, es) \<Rightarrow>
          \<lparr> persons = set_persons ps,
            edges = es,
            definedRelationships = [],
            targetPair = (''p1'', ''p2''),
            merges = [] \<rparr>)"

text \<open>
  \<^verbatim>\<open>resolveId\<close> is a \<^verbatim>\<open>while\<close> loop with no bound: it follows the merge map for as
  long as the current id is a key. Not returning is the value \<^const>\<open>None\<close>.
\<close>

partial_function (option) resolveId :: "string \<Rightarrow> (string, string) js_map \<Rightarrow> string option" where
  "resolveId resolved ms =
     (case map_of ms resolved of
        None \<Rightarrow> Some resolved
      | Some next_id \<Rightarrow> resolveId next_id ms)"

declare resolveId.simps [code]

text \<open>The same loop, cut off when it would take more than \<open>n\<close> hops.\<close>

primrec resolveId_within :: "nat \<Rightarrow> string \<Rightarrow> (string, string) js_map \<Rightarrow> string option" where
  "resolveId_within 0 resolved ms =
     (case map_of ms resolved of None \<Rightarrow> Some resolved | Some next_id \<Rightarrow> None)"
| "resolveId_within (Suc n) resolved ms =
     (case map_of ms resolved of
        None \<Rightarrow> Some resolved
      | Some next_id \<Rightarrow> resolveId_within n next_id ms)"

text \<open>One round of the loop of \<^verbatim>\<open>findAllPaths\<close> that builds the child-to-parents table.\<close>

definition add_parent ::
    "(string, string) js_map \<Rightarrow> ParentChildEdge \<Rightarrow> (string, string list) js_map
      \<Rightarrow> (string, string list) js_map option" where
  "add_parent ms edge parentOf =
     (case resolveId (childId edge) ms of
        None \<Rightarrow> None
      | Some resolved \<Rightarrow>
          (let parentOf1 = (if map_has parentOf resolved then parentOf
                            else map_set parentOf resolved [])
           in case resolveId (parentId edge) ms of
                None \<Rightarrow> None
              | Some parent \<Rightarrow>
                  Some (case map_of parentOf1 resolved of
                          None \<Rightarrow> parentOf1
                        | Some ps \<Rightarrow> map_set parentOf1 resolved (ps @ [parent]))))"

text \<open>
  The inner \<^verbatim>\<open>dfs\<close> of \<^verbatim>\<open>getAncestors\<close> updates the depth map and the visited set
  it closes over; both are the state that the model threads through. Its recursion depth
  is bounded by a fuel argument, for which \<^verbatim>\<open>getAncestors\<close> supplies one more than
  the number of keys of the table.
\<close>

primrec dfs ::
    "nat \<Rightarrow> (string, string list) js_map \<Rightarrow> string \<Rightarrow> nat
      \<Rightarrow> (string, nat) js_map \<times> string set \<Rightarrow> ((string, nat) js_map \<times> string set) option" where
  "dfs 0 parentOf current depth st = None"
| "dfs (Suc fuel) parentOf current depth st =
     (case st of (ancestors, visited) \<Rightarrow>
        if current \<in> visited then Some (ancestors, visited)
        else
          for_each (case map_of parentOf current of None \<Rightarrow> [] | Some ps \<Rightarrow> ps)
            (\<lambda>parent (anc, vis).
               dfs fuel parentOf parent (depth + 1)
                 (case map_of anc parent of
                    None \<Rightarrow> map_set anc parent (depth + 1)
                  | Some d \<Rightarrow> if depth + 1 < d then map_set anc parent (depth + 1) else anc,
                  vis))
            (ancestors, insert current visited))"

definition getAncestors ::
    "(string, string) js_map \<Rightarrow> (string, string list) js_map \<Rightarrow> string
      \<Rightarrow> (string, nat) js_map option" where
  "getAncestors ms parentOf i =
     (case resolveId i ms of
        None \<Rightarrow> None
      | Some start \<Rightarrow>
          map_option fst (dfs (Suc (length parentOf)) parentOf start 0 ([], {})))"

definition build_parentOf :: "DynamicPedigree \<Rightarrow> (string, string list) js_map option" where
  "build_parentOf pedigree = for_each (edges pedigree) (add_parent (merges pedigree)) []"

definition findAllPaths :: "string \<Rightarrow> string \<Rightarrow> DynamicPedigree \<Rightarrow> string list list option" where
  "findAllPaths id1 id2 pedigree =
     (case build_parentOf pedigree of
        None \<Rightarrow> None
      | Some parentOf \<Rightarrow>
     (case getAncestors (merges pedigree) parentOf id1 of
        None \<Rightarrow> None
      | Some ancestors1 \<Rightarrow>
     (case getAncestors (merges pedigree) parentOf id2 of
        None \<Rightarrow> None
      | Some ancestors2 \<Rightarrow>
          (let commonAncestors =
                 map fst (filter (\<lambda>(ancestorId, d). map_has ancestors2 ancestorId) ancestors1)
           in Some (concat (map (\<lambda>ancestor.
                  case (map_of ancestors1 ancestor, map_of ancestors2 ancestor) of
                    (Some depth1, Some depth2) \<Rightarrow> [replicate (depth1 + depth2 + 1) ancestor]
                  | other \<Rightarrow> []) commonAncestors))))))"

record PedigreeResult =
  fp_coefficientOfRelationship :: rat
  fp_inbreedingCoefficient :: rat
  contributingPaths :: "string list list"

text \<open>The accumulation loop of \<^verbatim>\<open>calculateFromPedigree\<close>: the uncapped path sum.\<close>

definition path_sum :: "string list list \<Rightarrow> rat" where
  "path_sum paths =
     foldl (\<lambda>r path. r + Math_pow (1/2) (int (length path) - 1)) 0 paths"

definition calculateFromPedigree :: "DynamicPedigree \<Rightarrow> PedigreeResult option" where
  "calculateFromPedigree pedigree =
     (case targetPair pedigree of (id1, id2) \<Rightarrow>
        (case findAllPaths id1 id2 pedigree of
           None \<Rightarrow> None
         | Some paths \<Rightarrow>
             (let r = path_sum paths
              in Some \<lparr> fp_coefficientOfRelationship = min r 1,
                        fp_inbreedingCoefficient = r / 2,
                        contributingPaths = paths \<rparr>)))"

text \<open>
  \<^verbatim>\<open>addRelationship\<close>: the parents of a person are read off the raw (unresolved)
  edges; the first parent of each sex is found through the person map.
\<close>

definition parents_by_edges :: "DynamicPedigree \<Rightarrow> string \<Rightarrow> string list" where
  "parents_by_edges pedigree personId =
     map parentId (filter (\<lambda>e. childId e = personId) (edges pedigree))"

definition find_parent :: "DynamicPedigree \<Rightarrow> Sex \<Rightarrow> string list \<Rightarrow> string option" where
  "find_parent pedigree s parents =
     List.find (\<lambda>p. map_option sex (map_of (persons pedigree) p) = Some s) parents"

text \<open>\<^verbatim>\<open>if (a && b && a !== b) merges.set(b, a)\<close>\<close>

definition merge_into :: "string option \<Rightarrow> string option \<Rightarrow> (string, string) js_map
      \<Rightarrow> (string, string) js_map" where
  "merge_into parent1 parent2 ms =
     (case (parent1, parent2) of
        (Some keep, Some lose) \<Rightarrow>
          if truthy_str parent1 \<and> truthy_str parent2 \<and> keep \<noteq> lose
          then map_set ms lose keep else ms
      | other \<Rightarrow> ms)"

definition addRelationship ::
    "DynamicPedigree \<Rightarrow> string \<Rightarrow> string \<Rightarrow> NodeRelationshipType \<Rightarrow> DynamicPedigree" where
  "addRelationship pedigree p1 p2 relationshipType =
     (let newPedigree = pedigree\<lparr> definedRelationships :=
            definedRelationships pedigree @
              [\<lparr> person1Id = p1, person2Id = p2, rel_type = relationshipType \<rparr>] \<rparr>;
          parents1 = parents_by_edges pedigree p1;
          parents2 = parents_by_edges pedigree p2;
          father1 = find_parent pedigree M parents1;
          father2 = find_parent pedigree M parents2;
          mother1 = find_parent pedigree F parents1;
          mother2 = find_parent pedigree F parents2
      in if relationshipType = NR_siblings then
           newPedigree\<lparr> merges :=
             merge_into mother1 mother2 (merge_into father1 father2 (merges pedigree)) \<rparr>
         else if relationshipType = NR_half_siblings then
           newPedigree\<lparr> merges := merge_into father1 father2 (merges pedigree) \<rparr>
         else newPedigree)"






section \<open>Specification-level notions\<close>

text \<open>
  The merge map as a relation: an id is related to the id it is merged into. The map is
  acyclic when no id comes back to itself by following the map one or more times, that
  is when this relation is \<^const>\<open>acyclic\<close>.
\<close>

definition merge_rel :: "(string, string) js_map \<Rightarrow> (string \<times> string) set" where
  "merge_rel ms = {(a, b). map_of ms a = Some b}"

text \<open>
  An upward path in the child-to-parents table: a list of ids in which every id is
  followed by one of its parents. It has one edge less than it has ids.
\<close>

fun upward_path :: "(string, string list) js_map \<Rightarrow> string list \<Rightarrow> bool" where
  "upward_path parentOf (c # p # rest) =
     (List.member (case map_of parentOf c of None \<Rightarrow> [] | Some ps \<Rightarrow> ps) p
      \<and> upward_path parentOf (p # rest))"
| "upward_path parentOf other = True"

text \<open>The ids that are keys of the merge map and can be reached from an id.\<close>

definition reachable_keys :: "(string, string) js_map \<Rightarrow> string \<Rightarrow> string set" where
  "reachable_keys ms x = {y. (x, y) \<in> (merge_rel ms)\<^sup>* \<and> y \<in> dom (map_of ms)}"

text \<open>
  A sequence of \<^verbatim>\<open>addRelationship\<close> calls, each a triple of the two person ids and
  the declared type, applied from left to right.
\<close>

type_synonym relationship_call = "string \<times> string \<times> NodeRelationshipType"

definition addRelationships :: "DynamicPedigree \<Rightarrow> relationship_call list \<Rightarrow> DynamicPedigree" where
  "addRelationships pedigree calls =
     foldl (\<lambda>p (a, b, t). addRelationship p a b t) pedigree calls"






text \<open>
  The path-based coefficient of an archetype, on the static template with its selected
  pair and on the generated dynamic pedigree with its target pair.
\<close>

definition path_based_r :: "RelationshipType \<Rightarrow> rat option" where
  "path_based_r relationship =
     (case getSelectedPairIds relationship of (id1, id2) \<Rightarrow>
        map_option (\<lambda>paths. coefficientOfRelationship paths [])
          (findAncestorPaths id1 id2 (getPedigreeForRelationship relationship)))"

definition pedigree_r :: "RelationshipType \<Rightarrow> Sex \<Rightarrow> Sex \<Rightarrow> rat option" where
  "pedigree_r relationship s1 s2 =
     map_option fp_coefficientOfRelationship
       (calculateFromPedigree (generateBasePedigree relationship s1 s2))"

text \<open>
  A pedigree in which the father of the child is also the father of the child's mother,
  as a dynamic pedigree and as a family graph with parent references.
\<close>

definition incest_pedigree :: DynamicPedigree where
  "incest_pedigree =
     \<lparr> persons = set_persons
         [addPerson ''child'' ''Child'' F 3,
          addPerson ''mother'' ''Mother'' F 2,
          addPerson ''father'' ''Father'' M 1,
          addPerson ''grandfather'' ''Grandfather'' M 0],
       edges =
         [mk_edge ''mother'' ''child'', mk_edge ''father'' ''child'',
          mk_edge ''father'' ''mother'', mk_edge ''grandfather'' ''father''],
       definedRelationships = [],
       targetPair = (''child'', ''mother''),
       merges = [] \<rparr>"

definition incest_graph :: FamilyGraph where
  "incest_graph =
     \<lparr> graph_persons = set_persons
         [createPerson ''grandfather'' ''Grandfather'' M 0 None None,
          createPerson ''father'' ''Father'' M 1 None (Some ''grandfather''),
          createPerson ''mother'' ''Mother'' F 2 None (Some ''father''),
          createPerson ''child'' ''Child'' F 3 (Some ''mother'') (Some ''father'')],
       graph_edges =
         [mk_edge ''grandfather'' ''father'', mk_edge ''father'' ''mother'',
          mk_edge ''mother'' ''child'', mk_edge ''father'' ''child''],
       consanguinityLinks = [] \<rparr>"

text \<open>Two persons who share five parents: a pedigree whose path sum exceeds 1.\<close>

definition crowded_pedigree :: DynamicPedigree where
  "crowded_pedigree =
     \<lparr> persons = set_persons
         [addPerson ''p1'' ''Person A'' M 1, addPerson ''p2'' ''Person B'' F 1,
          addPerson ''a'' ''Parent 1'' M 0, addPerson ''b'' ''Parent 2'' F 0,
          addPerson ''c'' ''Parent 3'' M 0, addPerson ''d'' ''Parent 4'' F 0,
          addPerson ''e'' ''Parent 5'' M 0],
       edges =
         [mk_edge ''a'' ''p1'', mk_edge ''b'' ''p1'', mk_edge ''c'' ''p1'',
          mk_edge ''d'' ''p1'', mk_edge ''e'' ''p1'',
          mk_edge ''a'' ''p2'', mk_edge ''b'' ''p2'', mk_edge ''c'' ''p2'',
          mk_edge ''d'' ''p2'', mk_edge ''e'' ''p2''],
       definedRelationships = [],
       targetPair = (''p1'', ''p2''),
       merges = [] \<rparr>"

section \<open>The scalar consanguinity flow\<close>

text \<open>
  Claim C4. The siblings archetype with the single consanguinity factor "parents are
  first cousins": the factor of the ancestral relationship is 0.0625, the compound factor
  of the one-element list is 0.0625 as well, and \<^verbatim>\<open>calculateProbabilities\<close> with that
  compound factor returns r = 0.53125, F = 0.265625, baseline 0.5 and delta 0.03125,
  for any two persons.
\<close>

theorem siblings_parents_first_cousins_scenario:
  "getConsanguinityFactor (Some FirstCousins) = 1/16
   \<and> getCompoundConsanguinityFactor
        [\<lparr> factor_generation = Parents, factor_relationship = FirstCousins \<rparr>] = 1/16
   \<and> pr_coefficientOfRelationship (calculateProbabilities person1 person2 Siblings
        (getCompoundConsanguinityFactor
          [\<lparr> factor_generation = Parents, factor_relationship = FirstCousins \<rparr>])) = 17/32
   \<and> pr_inbreedingCoefficient (calculateProbabilities person1 person2 Siblings
        (getCompoundConsanguinityFactor
          [\<lparr> factor_generation = Parents, factor_relationship = FirstCousins \<rparr>])) = 17/64
   \<and> baselineR (calculateProbabilities person1 person2 Siblings
        (getCompoundConsanguinityFactor
          [\<lparr> factor_generation = Parents, factor_relationship = FirstCousins \<rparr>])) = 1/2
   \<and> deltaFromBaseline (calculateProbabilities person1 person2 Siblings
        (getCompoundConsanguinityFactor
          [\<lparr> factor_generation = Parents, factor_relationship = FirstCousins \<rparr>])) = 1/32"
  by (simp add: getConsanguinityFactor_def getCompoundConsanguinityFactor_def num_or_def
      calculateProbabilities_def Let_def)

text \<open>
  Claim C6. The compound factor is additive and scaled by the tier: a list of two equal
  factors gives twice the total of the factor alone, and a relationship declared at the
  great-grandparents tier gives a quarter of what it gives at the parents tier, for every
  relationship type.
\<close>

theorem compound_additive_and_tier_scaled:
  "getCompoundConsanguinityFactor [f, f] = 2 * getCompoundConsanguinityFactor [f]
   \<and> getCompoundConsanguinityFactor
        [\<lparr> factor_generation = GreatGrandparents, factor_relationship = rel \<rparr>]
       = getCompoundConsanguinityFactor
        [\<lparr> factor_generation = Parents, factor_relationship = rel \<rparr>] / 4"
  by (cases rel) (simp_all add: getCompoundConsanguinityFactor_def getConsanguinityFactor_def
      num_or_def Let_def)

section \<open>Y-linked sharing\<close>

text \<open>
  Claim C9. Whenever one of the two persons is not male (so whenever one is female),
  \<^verbatim>\<open>yLinkedCoefficient\<close> returns the number 0, not null, whatever the relationship.
\<close>

theorem yLinked_zero_unless_both_male:
  "sex person1 \<noteq> M \<or> sex person2 \<noteq> M
   \<Longrightarrow> yLinkedCoefficient person1 person2 relationship = Some 0"
  by auto

theorem yLinked_zero_unless_both_male_witness:
  "sex (addPerson ''a'' ''Aunt'' F 1) \<noteq> M
   \<and> yLinkedCoefficient (addPerson ''a'' ''Aunt'' F 1)
         (addPerson ''b'' ''Nephew'' M 2) Avuncular = Some 0"
  using yLinked_zero_unless_both_male
    [of "addPerson ''a'' ''Aunt'' F 1" "addPerson ''b'' ''Nephew'' M 2" Avuncular]
  by (simp add: addPerson_def)

section \<open>Resolving ids through the merge map\<close>

lemma resolveId_unmapped: "map_of ms x = None \<Longrightarrow> resolveId x ms = Some x"
  by (subst resolveId.simps) simp

lemma resolveId_step: "map_of ms x = Some y \<Longrightarrow> resolveId x ms = resolveId y ms"
  by (subst resolveId.simps) simp

lemma resolveId_within_sound:
  "resolveId_within n x ms = Some c \<Longrightarrow> resolveId x ms = Some c \<and> map_of ms c = None"
proof (induction n arbitrary: x)
  case 0
  then show ?case by (auto simp: resolveId_unmapped split: option.splits)
next
  case (Suc n)
  then show ?case by (auto simp: resolveId_unmapped resolveId_step split: option.splits)
qed

lemma merge_rel_iff: "(a, b) \<in> merge_rel ms \<longleftrightarrow> map_of ms a = Some b"
  by (simp add: merge_rel_def)

lemma finite_reachable_keys: "finite (reachable_keys ms x)"
  by (rule finite_subset [of _ "dom (map_of ms)"]) (auto simp: reachable_keys_def finite_dom_map_of)

lemma card_reachable_keys: "card (reachable_keys ms x) \<le> length ms"
proof -
  have "card (reachable_keys ms x) \<le> card (dom (map_of ms))"
    by (rule card_mono) (auto simp: reachable_keys_def finite_dom_map_of)
  also have "\<dots> = card (fst ` set ms)" by (simp add: dom_map_of_conv_image_fst)
  also have "\<dots> \<le> card (set ms)" by (rule card_image_le) simp
  also have "\<dots> \<le> length ms" by (rule card_length)
  finally show ?thesis .
qed

lemma reachable_keys_step:
  assumes ac: "acyclic (merge_rel ms)" and xy: "map_of ms x = Some y"
  shows "card (reachable_keys ms y) < card (reachable_keys ms x)"
proof (rule psubset_card_mono [OF finite_reachable_keys])
  have e: "(x, y) \<in> merge_rel ms" using xy by (simp add: merge_rel_iff)
  have sub: "reachable_keys ms y \<subseteq> reachable_keys ms x"
    using e by (auto simp: reachable_keys_def intro: converse_rtrancl_into_rtrancl)
  have "x \<in> reachable_keys ms x" using xy by (auto simp: reachable_keys_def)
  moreover have "x \<notin> reachable_keys ms y"
  proof
    assume "x \<in> reachable_keys ms y"
    then have "(y, x) \<in> (merge_rel ms)\<^sup>*" by (simp add: reachable_keys_def)
    with e have "(x, x) \<in> (merge_rel ms)\<^sup>+" by (rule rtrancl_into_trancl2)
    with ac show False by (simp add: acyclic_def)
  qed
  ultimately show "reachable_keys ms y \<subset> reachable_keys ms x" using sub by blast
qed

lemma resolveId_within_enough:
  "acyclic (merge_rel ms) \<Longrightarrow> card (reachable_keys ms x) \<le> n
   \<Longrightarrow> \<exists>c. resolveId_within n x ms = Some c"
proof (induction n arbitrary: x)
  case 0
  then have "reachable_keys ms x = {}" using finite_reachable_keys by simp
  then have "map_of ms x = None" by (auto simp: reachable_keys_def)
  then show ?case by simp
next
  case (Suc n)
  show ?case
  proof (cases "map_of ms x")
    case None
    then show ?thesis by simp
  next
    case (Some y)
    from reachable_keys_step [OF Suc.prems(1) Some] Suc.prems(2)
    have "card (reachable_keys ms y) \<le> n" by simp
    from Suc.IH [OF Suc.prems(1) this] Some show ?thesis by simp
  qed
qed

lemma resolveId_acyclic:
  assumes "acyclic (merge_rel ms)"
  shows "\<exists>c. resolveId_within (length ms) x ms = Some c \<and> resolveId x ms = Some c
             \<and> map_of ms c = None"
proof -
  from resolveId_within_enough [OF assms card_reachable_keys]
  obtain c where "resolveId_within (length ms) x ms = Some c" by blast
  with resolveId_within_sound [OF this] show ?thesis by blast
qed

lemma resolveId_closed_None:
  assumes closed: "\<And>x. x \<in> C \<Longrightarrow> \<exists>y\<in>C. map_of ms x = Some y" and "x \<in> C"
  shows "resolveId x ms = None"
proof (rule ccontr)
  assume "resolveId x ms \<noteq> None"
  then obtain c where c: "resolveId x ms = Some c" by blast
  have "ms = ms \<longrightarrow> x \<notin> C"
  proof (rule resolveId.raw_induct [where P = "\<lambda>x' ms' c'. ms' = ms \<longrightarrow> x' \<notin> C", OF _ c])
    fix r x' ms' c'
    assume IH: "\<And>a b y. r a b = Some y \<Longrightarrow> b = ms \<longrightarrow> a \<notin> C"
      and body: "(case map_of ms' x' of None \<Rightarrow> Some x' | Some n \<Rightarrow> r n ms') = Some c'"
    show "ms' = ms \<longrightarrow> x' \<notin> C"
    proof (intro impI notI)
      assume eq: "ms' = ms" and "x' \<in> C"
      with closed obtain y where y: "y \<in> C" "map_of ms x' = Some y" by blast
      with body eq have "r y ms = Some c'" by simp
      from IH [OF this] y show False by simp
    qed
  qed
  with assms(2) show False by simp
qed

lemma resolveId_two_cycle_None:
  "map_of ms a = Some b \<Longrightarrow> map_of ms b = Some a \<Longrightarrow> resolveId a ms = None"
  by (rule resolveId_closed_None [where C = "{a, b}"]) auto


lemma merge_rel_Nil: "merge_rel [] = {}"
  by (simp add: merge_rel_def)

lemma unmapped_no_path: "map_of ms k = None \<Longrightarrow> (k, x) \<notin> (merge_rel ms)\<^sup>+"
  by (auto simp: merge_rel_iff dest: tranclD)










lemma acyclic_merge_rel_Cons:
  assumes "acyclic (merge_rel ms)" and "map_of ms k = None" and "k \<noteq> l"
  shows "acyclic (merge_rel ((l, k) # ms))"
proof -
  have "(k, l) \<notin> (merge_rel ms)\<^sup>+" using assms(2) by (rule unmapped_no_path)
  with assms(3) have nb: "(k, l) \<notin> (merge_rel ms)\<^sup>*" by (simp add: rtrancl_eq_or_trancl)
  have "merge_rel ((l, k) # ms) \<subseteq> insert (l, k) (merge_rel ms)"
    by (auto simp: merge_rel_def split: if_splits)
  moreover have "acyclic (insert (l, k) (merge_rel ms))"
    using assms(1) nb by (simp add: acyclic_insert)
  ultimately show ?thesis by (rule acyclic_subset [rotated])
qed

lemma acyclic_merge_rel_Nil: "acyclic (merge_rel [])"
  by (simp add: merge_rel_Nil acyclic_def)

text \<open>
  Claim C2, as the code has it. \<^verbatim>\<open>resolveId\<close> has no guard against a cycle. An id
  with no mapping is returned unchanged, whatever the rest of the map is. On a merge map
  without a cycle the loop returns for every id, after at most as many hops as the map
  has entries, and the id it returns has no mapping. On the map that sends a to b and b to
  a the loop started at a never returns.
\<close>

theorem resolveId_terminates_when_acyclic:
  "(map_of ms x = None \<longrightarrow> resolveId x ms = Some x)
   \<and> (acyclic (merge_rel ms) \<longrightarrow>
        (\<exists>c. resolveId x ms = Some c \<and> resolveId_within (length ms) x ms = Some c
             \<and> map_of ms c = None))"
  using resolveId_acyclic [of ms x] by (auto simp: resolveId_unmapped)

theorem resolveId_terminates_when_acyclic_witness:
  "map_of [(''b'', ''a''), (''c'', ''b'')] ''a'' = None
   \<and> resolveId ''a'' [(''b'', ''a''), (''c'', ''b'')] = Some ''a''
   \<and> acyclic (merge_rel [(''b'', ''a''), (''c'', ''b'')])
   \<and> resolveId ''c'' [(''b'', ''a''), (''c'', ''b'')] = Some ''a''
   \<and> resolveId_within 2 ''c'' [(''b'', ''a''), (''c'', ''b'')] = Some ''a''"
proof -
  have ac: "acyclic (merge_rel [(''b'', ''a''), (''c'', ''b'')])"
    by (simp add: acyclic_merge_rel_Cons acyclic_merge_rel_Nil)
  have w: "resolveId_within (length [(''b'', ''a''), (''c'', ''b'')]) ''c''
             [(''b'', ''a''), (''c'', ''b'')] = Some ''a''"
    by code_simp
  from resolveId_terminates_when_acyclic [of "[(''b'', ''a''), (''c'', ''b'')]" "''a''"]
       resolveId_terminates_when_acyclic [of "[(''b'', ''a''), (''c'', ''b'')]" "''c''"] ac w
  show ?thesis by (simp add: numeral_2_eq_2)
qed

theorem resolveId_loops_on_cycle:
  "resolveId ''a'' [(''a'', ''b''), (''b'', ''a'')] = None"
  by (rule resolveId_two_cycle_None [where b = "''b''"]) simp_all

section \<open>Relationship declarations and the merge map\<close>





section \<open>Loops that return\<close>

lemma for_each_invariant:
  assumes "I s"
    and "\<And>x s. x \<in> set xs \<Longrightarrow> I s \<Longrightarrow> \<exists>s'. body x s = Some s' \<and> I s'"
  shows "\<exists>s'. for_each xs body s = Some s' \<and> I s'"
  using assms
proof (induction xs arbitrary: s)
  case Nil
  then show ?case by simp
next
  case (Cons x xs)
  from Cons.prems obtain s1 where s1: "body x s = Some s1" "I s1" by fastforce
  from Cons.IH [OF s1(2)] Cons.prems(2) obtain s' where "for_each xs body s1 = Some s'" "I s'"
    by fastforce
  with s1 show ?case by simp
qed

lemma card_unvisited_insert:
  assumes "finite K" and "k \<in> K" and "k \<notin> vis" and "card (K - vis) < Suc fuel"
  shows "card (K - insert k vis) < fuel"
proof -
  have "K - insert k vis \<subset> K - vis" using assms(2,3) by blast
  then have "card (K - insert k vis) < card (K - vis)"
    using assms(1) by (intro psubset_card_mono) auto
  with assms(4) show ?thesis by simp
qed

lemma card_unvisited_mono:
  assumes "finite K" and "vis \<subseteq> vis'" and "card (K - vis) < fuel"
  shows "card (K - vis') < fuel"
proof -
  have "card (K - vis') \<le> card (K - vis)"
    using assms(1,2) by (intro card_mono) auto
  with assms(3) show ?thesis by simp
qed

lemma card_keys_le_length: "card (fst ` set m) \<le> length m"
proof -
  have "card (fst ` set m) \<le> card (set m)" by (rule card_image_le) simp
  also have "\<dots> \<le> length m" by (rule card_length)
  finally show ?thesis .
qed

lemma for_each_total:
  assumes "\<And>x s. \<exists>s'. body x s = Some s'"
  shows "\<exists>s'. for_each xs body s = Some s'"
  using for_each_invariant [where I = "\<lambda>s. True" and body = body and xs = xs and s = s] assms
  by auto

section \<open>Ancestor paths in a family graph\<close>

lemma getAllAncestors_enough:
  "card (fst ` set (graph_persons graph) - visited) < fuel
   \<Longrightarrow> \<exists>ancestors visited'. getAllAncestors fuel personId graph visited = Some (ancestors, visited')
         \<and> visited \<subseteq> visited'"
proof (induction fuel arbitrary: personId visited)
  case 0
  then show ?case by simp
next
  case (Suc fuel)
  let ?K = "fst ` set (graph_persons graph)"
  show ?case
  proof (cases "personId \<in> visited")
    case True
    then show ?thesis by simp
  next
    case nv: False
    show ?thesis
    proof (cases "map_of (graph_persons graph) personId")
      case None
      with nv show ?thesis by auto
    next
      case (Some person)
      then have "personId \<in> ?K"
        using map_of_eq_None_iff [of "graph_persons graph" personId] by simp
      from card_unvisited_insert [OF _ this nv Suc.prems]
      have small: "card (?K - insert personId visited) < fuel" by simp
      let ?I = "\<lambda>s. insert personId visited \<subseteq> snd s \<and> card (?K - snd s) < fuel"
      let ?body = "\<lambda>parentId (ancestors, vis).
                  case getAllAncestors fuel parentId graph vis of
                    None \<Rightarrow> None
                  | Some (grandAncestors, vis') \<Rightarrow>
                      Some (fold (\<lambda>(grandId, path) acc. map_set acc grandId (personId # path))
                              grandAncestors (map_set ancestors parentId [personId]),
                            vis')"
      have step: "\<exists>s'. ?body x s = Some s' \<and> ?I s'" if "?I s" for x s
      proof -
        obtain a v where s: "s = (a, v)" by (cases s)
        with that have v: "insert personId visited \<subseteq> v" "card (?K - v) < fuel" by simp_all
        from Suc.IH [OF v(2), of x] obtain a' v'
          where r: "getAllAncestors fuel x graph v = Some (a', v')" "v \<subseteq> v'" by blast
        from card_unvisited_mono [OF _ r(2) v(2)] have "card (?K - v') < fuel" by simp
        with r v(1) s show ?thesis by auto
      qed
      have "?I ([], insert personId visited)" using small by simp
      from for_each_invariant [where I = ?I and body = ?body, OF this step]
      obtain s' where s': "for_each (parentIds person) ?body ([], insert personId visited) = Some s'"
        "?I s'" by blast
      obtain a' v' where "s' = (a', v')" by (cases s')
      with s' nv Some show ?thesis by auto
    qed
  qed
qed

lemma getAllAncestors_total:
  "\<exists>ancestors visited'.
     getAllAncestors (Suc (length (graph_persons graph))) personId graph {} = Some (ancestors, visited')"
proof -
  have "card (fst ` set (graph_persons graph) - {}) < Suc (length (graph_persons graph))"
    using card_keys_le_length [of "graph_persons graph"] by simp
  from getAllAncestors_enough [OF this] show ?thesis by blast
qed

lemma getAllAncestors_absent:
  "map_of (graph_persons graph) personId = None
   \<Longrightarrow> getAllAncestors (Suc fuel) personId graph {} = Some ([], {personId})"
  by simp

lemma no_common_ancestors:
  "fold (\<lambda>(ancestorId, path1) paths. paths) ancestors1 acc = acc"
  by (induction ancestors1 arbitrary: acc) auto

text \<open>
  Claim C8. When one of the two target ids is not a key of the person map,
  \<^verbatim>\<open>findAncestorPaths\<close> returns the empty list of paths: the traversal of the other
  target returns whatever the graph is, and no path is built.
\<close>

theorem findAncestorPaths_absent_target:
  "map_of (graph_persons graph) target1 = None \<or> map_of (graph_persons graph) target2 = None
   \<Longrightarrow> findAncestorPaths target1 target2 graph = Some []"
proof (erule disjE)
  assume "map_of (graph_persons graph) target1 = None"
  then have e1: "getAllAncestors (Suc (length (graph_persons graph))) target1 graph {}
      = Some ([], {target1})"
    by (rule getAllAncestors_absent)
  obtain a2 v2 where e2:
    "getAllAncestors (Suc (length (graph_persons graph))) target2 graph {} = Some (a2, v2)"
    using getAllAncestors_total by blast
  show ?thesis unfolding findAncestorPaths_def e1 e2 by simp
next
  assume "map_of (graph_persons graph) target2 = None"
  then have e2: "getAllAncestors (Suc (length (graph_persons graph))) target2 graph {}
      = Some ([], {target2})"
    by (rule getAllAncestors_absent)
  obtain a1 v1 where e1:
    "getAllAncestors (Suc (length (graph_persons graph))) target1 graph {} = Some (a1, v1)"
    using getAllAncestors_total by blast
  show ?thesis unfolding findAncestorPaths_def e1 e2 by (simp add: no_common_ancestors)
qed

theorem findAncestorPaths_absent_target_witness:
  "map_of (graph_persons createSiblingPedigree) ''stranger'' = None
   \<and> map_of (graph_persons createSiblingPedigree) ''child1'' \<noteq> None
   \<and> findAncestorPaths ''child1'' ''stranger'' createSiblingPedigree = Some []"
proof -
  have a: "map_of (graph_persons createSiblingPedigree) ''stranger'' = None" by code_simp
  have b: "map_of (graph_persons createSiblingPedigree) ''child1'' \<noteq> None" by code_simp
  from findAncestorPaths_absent_target [of createSiblingPedigree "''child1''" "''stranger''"] a b
  show ?thesis by simp
qed

section \<open>The path sum of a dynamic pedigree\<close>

lemma add_parent_total:
  assumes "acyclic (merge_rel ms)"
  shows "\<exists>parentOf'. add_parent ms edge parentOf = Some parentOf'"
proof -
  from resolveId_acyclic [OF assms] obtain c where "resolveId (childId edge) ms = Some c" by blast
  moreover from resolveId_acyclic [OF assms] obtain p where "resolveId (parentId edge) ms = Some p"
    by blast
  ultimately show ?thesis by (simp add: add_parent_def Let_def)
qed

lemma build_parentOf_total:
  "acyclic (merge_rel (merges pedigree)) \<Longrightarrow> \<exists>parentOf. build_parentOf pedigree = Some parentOf"
  unfolding build_parentOf_def by (rule for_each_total) (rule add_parent_total)

lemma dfs_enough:
  "card (fst ` set parentOf - visited) < fuel
   \<Longrightarrow> \<exists>ancestors' visited'.
         dfs fuel parentOf current depth (ancestors, visited) = Some (ancestors', visited')
         \<and> visited \<subseteq> visited'"
proof (induction fuel arbitrary: current depth ancestors visited)
  case 0
  then show ?case by simp
next
  case (Suc fuel)
  let ?K = "fst ` set parentOf"
  show ?case
  proof (cases "current \<in> visited")
    case True
    then show ?thesis by simp
  next
    case nv: False
    show ?thesis
    proof (cases "map_of parentOf current")
      case None
      with nv show ?thesis by auto
    next
      case (Some ps)
      then have "current \<in> ?K"
        using map_of_eq_None_iff [of parentOf current] by simp
      from card_unvisited_insert [OF _ this nv Suc.prems]
      have small: "card (?K - insert current visited) < fuel" by simp
      let ?I = "\<lambda>s. insert current visited \<subseteq> snd s \<and> card (?K - snd s) < fuel"
      let ?body = "\<lambda>parent (anc, vis).
               dfs fuel parentOf parent (depth + 1)
                 (case map_of anc parent of
                    None \<Rightarrow> map_set anc parent (depth + 1)
                  | Some d \<Rightarrow> if depth + 1 < d then map_set anc parent (depth + 1) else anc,
                  vis)"
      have step: "\<exists>s'. ?body x s = Some s' \<and> ?I s'" if "?I s" for x s
      proof -
        obtain a v where s: "s = (a, v)" by (cases s)
        with that have v: "insert current visited \<subseteq> v" "card (?K - v) < fuel" by simp_all
        from Suc.IH [OF v(2)] obtain a' v'
          where r: "dfs fuel parentOf x (depth + 1)
                 (case map_of a x of
                    None \<Rightarrow> map_set a x (depth + 1)
                  | Some d \<Rightarrow> if depth + 1 < d then map_set a x (depth + 1) else a,
                  v) = Some (a', v')" "v \<subseteq> v'" by blast
        from card_unvisited_mono [OF _ r(2) v(2)] have "card (?K - v') < fuel" by simp
        with r v(1) s show ?thesis by auto
      qed
      have "?I (ancestors, insert current visited)" using small by simp
      from for_each_invariant [where I = ?I and body = ?body, OF this step]
      obtain s' where s': "for_each ps ?body (ancestors, insert current visited) = Some s'"
        "?I s'" by blast
      obtain a' v' where "s' = (a', v')" by (cases s')
      with s' nv Some show ?thesis by auto
    qed
  qed
qed

lemma getAncestors_total:
  assumes "acyclic (merge_rel ms)"
  shows "\<exists>ancestors. getAncestors ms parentOf i = Some ancestors"
proof -
  from resolveId_acyclic [OF assms] obtain start where s: "resolveId i ms = Some start" by blast
  have "card (fst ` set parentOf - {}) < Suc (length parentOf)"
    using card_keys_le_length [of parentOf] by simp
  from dfs_enough [OF this] obtain a v
    where "dfs (Suc (length parentOf)) parentOf start 0 ([], {}) = Some (a, v)" by blast
  with s show ?thesis by (simp add: getAncestors_def del: dfs.simps)
qed

lemma findAllPaths_total:
  assumes "acyclic (merge_rel (merges pedigree))"
  shows "\<exists>paths. findAllPaths id1 id2 pedigree = Some paths"
proof -
  from build_parentOf_total [OF assms] obtain po where po: "build_parentOf pedigree = Some po"
    by blast
  from getAncestors_total [OF assms] obtain a1
    where a1: "getAncestors (merges pedigree) po id1 = Some a1" by blast
  from getAncestors_total [OF assms] obtain a2
    where a2: "getAncestors (merges pedigree) po id2 = Some a2" by blast
  show ?thesis by (simp add: findAllPaths_def po a1 a2 Let_def)
qed

text \<open>
  Claim C10, as the code has it. \<^verbatim>\<open>calculateFromPedigree\<close> resolves ids through the
  merge map before anything else, so it returns only where that resolution does. On every
  pedigree whose merge map has no cycle it returns; the coefficient of relationship it
  returns is the path sum capped at 1, and the inbreeding coefficient is half of the
  uncapped sum, so that it exceeds half of the returned coefficient when the sum exceeds 1.
  On the pedigree of two first cousins declared siblings in both directions it never
  returns.
\<close>

theorem calculateFromPedigree_caps_r_only:
  assumes "acyclic (merge_rel (merges pedigree))"
  shows "\<exists>res. calculateFromPedigree pedigree = Some res
           \<and> findAllPaths (fst (targetPair pedigree)) (snd (targetPair pedigree)) pedigree
               = Some (contributingPaths res)
           \<and> fp_coefficientOfRelationship res = min (path_sum (contributingPaths res)) 1
           \<and> fp_coefficientOfRelationship res \<le> 1
           \<and> fp_inbreedingCoefficient res = path_sum (contributingPaths res) / 2
           \<and> (1 < path_sum (contributingPaths res)
                \<longrightarrow> fp_coefficientOfRelationship res / 2 < fp_inbreedingCoefficient res)"
proof -
  obtain id1 id2 where t: "targetPair pedigree = (id1, id2)" by (cases "targetPair pedigree")
  from findAllPaths_total [OF assms] obtain paths
    where p: "findAllPaths id1 id2 pedigree = Some paths" by blast
  show ?thesis by (simp add: calculateFromPedigree_def t p Let_def)
qed

theorem calculateFromPedigree_caps_r_only_witness:
  "acyclic (merge_rel (merges crowded_pedigree))
   \<and> (\<exists>res. calculateFromPedigree crowded_pedigree = Some res
          \<and> path_sum (contributingPaths res) = 5/4
          \<and> fp_coefficientOfRelationship res = 1
          \<and> fp_inbreedingCoefficient res = 5/8)"
proof -
  have ac: "acyclic (merge_rel (merges crowded_pedigree))"
    by (simp add: crowded_pedigree_def acyclic_merge_rel_Nil)
  have ev: "map_option (\<lambda>res. path_sum (contributingPaths res))
              (calculateFromPedigree crowded_pedigree) = Some (5/4)"
    by code_simp
  from calculateFromPedigree_caps_r_only [OF ac] ev ac show ?thesis by auto
qed

theorem calculateFromPedigree_diverges_on_cycle:
  "calculateFromPedigree
     (addRelationships (generateBasePedigree FirstCousins M F)
        [(''p1'', ''p2'', NR_siblings), (''p2'', ''p1'', NR_siblings)]) = None"
proof -
  let ?ped = "addRelationships (generateBasePedigree FirstCousins M F)
        [(''p1'', ''p2'', NR_siblings), (''p2'', ''p1'', NR_siblings)]"
  have ms: "merges ?ped
       = [(''father2'', ''father1''), (''mother2'', ''mother1''),
          (''father1'', ''father2''), (''mother1'', ''mother2'')]"
    by code_simp
  have es: "edges ?ped = mk_edge ''father1'' ''p1'' # tl (edges ?ped)"
    by code_simp
  have tp: "targetPair ?ped = (''p1'', ''p2'')"
    by code_simp
  have "resolveId ''father1'' (merges ?ped) = None"
    unfolding ms by (rule resolveId_two_cycle_None [where b = "''father2''"]) simp_all
  then have "add_parent (merges ?ped) (mk_edge ''father1'' ''p1'') [] = None"
    by (simp add: add_parent_def mk_edge_def Let_def split: option.splits)
  then have "build_parentOf ?ped = None"
    unfolding build_parentOf_def by (subst es) simp
  then show ?thesis
    by (simp add: calculateFromPedigree_def tp findAllPaths_def)
qed

section \<open>Half-siblings\<close>













section \<open>Path counting on the templates\<close>

text \<open>
  On the sibling templates the traversals report the four grandparents as common
  ancestors beside the two parents, and the path sum is 0.75.
\<close>

lemma siblings_path_sum:
  "path_based_r Siblings = Some (3/4) \<and> pedigree_r Siblings M F = Some (3/4)
   \<and> BASE_COEFFICIENTS Siblings = 1/2"
  by code_simp

text \<open>
  Claim C1, as the code has it. For first cousins the path-based computation returns the
  baseline 0.125, on the static template with its selected pair and on the generated
  pedigree with its target pair. For second cousins the static template and its selected
  pair are those of first cousins, so the computation returns 0.125 there; the generated
  pedigree joins the two targets through a single shared great-grandparent, three edges
  above each, and the computation returns 0.015625. Neither is the baseline 0.03125.
\<close>

theorem path_based_r_of_cousin_templates:
  "path_based_r FirstCousins = Some (BASE_COEFFICIENTS FirstCousins)
   \<and> pedigree_r FirstCousins s1 s2 = Some (BASE_COEFFICIENTS FirstCousins)
   \<and> BASE_COEFFICIENTS FirstCousins = 1/8
   \<and> getPedigreeForRelationship SecondCousins = getPedigreeForRelationship FirstCousins
   \<and> getSelectedPairIds SecondCousins = getSelectedPairIds FirstCousins
   \<and> path_based_r SecondCousins = Some (1/8)
   \<and> pedigree_r SecondCousins s1 s2 = Some (1/64)"
  apply (cases s1; cases s2)
     apply code_simp+
  done

theorem second_cousins_path_sum_not_baseline:
  "path_based_r SecondCousins = Some (1/8)
   \<and> BASE_COEFFICIENTS SecondCousins = 1/32
   \<and> path_based_r SecondCousins \<noteq> Some (BASE_COEFFICIENTS SecondCousins)"
  by code_simp

section \<open>Depths recorded by the upward traversal\<close>

text \<open>
  Claim C7. The traversal marks an ancestor as visited when it first reaches it and never
  enters it again, so a shorter route found later lowers the depth of that ancestor but
  not the depths of the ancestors above it. In the pedigree where the child's father is
  also the father of the child's mother, the grandfather is two edges above the child
  (child, father, grandfather) and is recorded at depth 3; the traversal of the family
  graph records the three-edge path for him as well.
\<close>

theorem dfs_records_longer_depth:
  "build_parentOf incest_pedigree =
     Some [(''child'', [''mother'', ''father'']), (''mother'', [''father'']),
           (''father'', [''grandfather''])]
   \<and> getAncestors (merges incest_pedigree)
        [(''child'', [''mother'', ''father'']), (''mother'', [''father'']),
         (''father'', [''grandfather''])] ''child''
       = Some [(''mother'', 1), (''father'', 1), (''grandfather'', 3)]
   \<and> upward_path
        [(''child'', [''mother'', ''father'']), (''mother'', [''father'']),
         (''father'', [''grandfather''])] [''child'', ''father'', ''grandfather'']
   \<and> map_option fst (getAllAncestors 5 ''child'' incest_graph {})
       = Some [(''mother'', [''child'']), (''father'', [''child'']),
               (''grandfather'', [''child'', ''mother'', ''father''])]"
  by code_simp

end
